theory Spec2Isabelle
  imports Main "HOL-Library.Sublist"
begin

section \<open>Python values, exceptions and external processes\<close>

text \<open>
  The two scripts are glue around external services.  Every external call is an input of
  the model (an environment record of functions), every exception the source can see is a
  value, and a function that may let an exception escape returns \<open>py_exc + 'a\<close>.
\<close>

datatype py_exc =
    CalledProcessError int
  | AttributeError
  | UnboundLocalError
  | NameError string
  | ValueError string
  | OSError
  | KeyError string
  | ApiError

text \<open>
  What \<open>subprocess.run(..., capture_output=True)\<close> can do: the child cannot be started
  (an \<open>OSError\<close>), or it exits with a return code, its captured stdout and stderr.
\<close>

datatype run_result = SpawnFailed | Exited int string string

text \<open>
  Captured output is \<open>str\<close> when the call passes \<open>text=True\<close> and \<open>bytes\<close> otherwise.
  Only \<open>bytes\<close> has a \<open>decode\<close> method; on a \<open>str\<close> the attribute lookup raises.
\<close>

datatype py_text = PyStr string | PyBytes string

fun captured :: "bool \<Rightarrow> string \<Rightarrow> py_text" where
  "captured True s = PyStr s"
| "captured False s = PyBytes s"

fun decode :: "py_text \<Rightarrow> py_exc + string" where
  "decode (PyBytes s) = Inr s"
| "decode (PyStr s) = Inl AttributeError"

text \<open>
  The exception object of a failed \<open>check=True\<close> call carries the return code and the
  captured streams.
\<close>

record called_process_error =
  returncode :: int
  err_stdout :: py_text
  err_stderr :: py_text

datatype 'a checked = Returned 'a | RaisedCPE called_process_error | RaisedOther py_exc

text \<open>\<open>subprocess.run(cmd, capture_output=True, text=t, check=True)\<close>; the value is stdout.\<close>

fun run_checked :: "bool \<Rightarrow> run_result \<Rightarrow> string checked" where
  "run_checked t SpawnFailed = RaisedOther OSError"
| "run_checked t (Exited rc out err) =
     (if rc = 0 then Returned out
      else RaisedCPE \<lparr>returncode = rc, err_stdout = captured t out, err_stderr = captured t err\<rparr>)"

subsection \<open>Strings\<close>

definition is_space :: "char \<Rightarrow> bool" where
  "is_space c \<longleftrightarrow> c \<in> set [CHR '' '', CHR 0x09, CHR 0x0A, CHR 0x0B, CHR 0x0C, CHR 0x0D]"

definition strip :: "string \<Rightarrow> string" where
  "strip s = rev (dropWhile is_space (rev (dropWhile is_space s)))"

text \<open>\<open>s.split(c)\<close> for a one-character separator: always at least one piece.\<close>

fun split_on :: "char \<Rightarrow> string \<Rightarrow> string list" where
  "split_on c [] = [[]]"
| "split_on c (x # xs) =
     (if x = c then [] # split_on c xs
      else (case split_on c xs of [] \<Rightarrow> [[x]] | p # ps \<Rightarrow> (x # p) # ps))"

text \<open>\<open>sep.join(xs)\<close>.\<close>

fun join :: "string \<Rightarrow> string list \<Rightarrow> string" where
  "join sep [] = []"
| "join sep [x] = x"
| "join sep (x # y # ys) = x @ sep @ join sep (y # ys)"

definition endswith :: "string \<Rightarrow> string \<Rightarrow> bool" where
  "endswith s suf \<longleftrightarrow> suffix suf s"

subsection \<open>Paths\<close>

text \<open>
  A \<open>pathlib\<close> path is the list of its \<open>parts\<close>; an absolute path has the part \<open>''/''\<close>
  first.  \<open>Path(s)\<close> drops empty and \<open>.\<close> components.
\<close>

type_synonym path = "string list"

definition Path :: "string \<Rightarrow> path" where
  "Path s = (if s \<noteq> [] \<and> hd s = CHR ''/'' then [''/''] else []) @
            filter (\<lambda>p. p \<noteq> [] \<and> p \<noteq> ''.'') (split_on CHR ''/'' s)"

definition path_str :: "path \<Rightarrow> string" where
  "path_str p = (case p of [] \<Rightarrow> ''.''
                 | x # xs \<Rightarrow> if x = ''/'' then ''/'' @ join ''/'' xs else join ''/'' p)"

definition parent :: "path \<Rightarrow> path" where
  "parent p = (if p = [] \<or> p = [''/''] then p else butlast p)"

definition path_name :: "path \<Rightarrow> string" where
  "path_name p = (if p = [] \<or> p = [''/''] then [] else last p)"

text \<open>
  \<open>path.stem\<close>: the final component without its last suffix; a leading or a trailing dot
  starts no suffix.
\<close>

definition path_stem :: "path \<Rightarrow> string" where
  "path_stem p =
     (let n = path_name p; k = length (takeWhile (\<lambda>c. c \<noteq> CHR ''.'') (rev n))
      in if CHR ''.'' \<in> set n \<and> 0 < k \<and> k + 1 < length n then take (length n - k - 1) n else n)"

text \<open>\<open>p.relative_to(root)\<close> raises \<open>ValueError\<close> unless \<open>root\<close> is a prefix of \<open>p\<close>.\<close>

definition relative_to :: "path \<Rightarrow> path \<Rightarrow> py_exc + path" where
  "relative_to p root =
     (if prefix root p then Inr (drop (length root) p) else Inl (ValueError ''not in the subpath''))"

section \<open>Model-diff tool: baseline fetcher\<close>

text \<open>
  \<open>get_main_branch_content\<close> (compare_models.py).  The environment is the \<open>git\<close>
  executable: a function from the argument vector to what the process does.  An
  exception raised while an \<open>except\<close> clause runs leaves the \<open>try\<close> statement: the later
  \<open>except Exception\<close> clause of the same statement does not see it.
\<close>

text \<open>
  The \<open>except subprocess.CalledProcessError as e\<close> clause.  Its first \<open>print\<close> formats
  \<open>relative_path\<close>, which is unbound when the first of the two calls failed; its second
  formats \<open>e.stderr.decode()\<close>.  \<open>return None\<close> is reached only past both.
\<close>

definition cpe_handler :: "path option \<Rightarrow> called_process_error \<Rightarrow> py_exc + string option" where
  "cpe_handler relative_path e =
     (case relative_path of
        None \<Rightarrow> Inl UnboundLocalError
      | Some rp \<Rightarrow> (case decode (err_stderr e) of Inl x \<Rightarrow> Inl x | Inr msg \<Rightarrow> Inr None))"

definition get_main_branch_content ::
  "(string list \<Rightarrow> run_result) \<Rightarrow> path \<Rightarrow> py_exc + string option" where
  "get_main_branch_content git model_path =
     (case run_checked True (git [''git'', ''rev-parse'', ''--show-toplevel'']) of
        RaisedCPE e \<Rightarrow> cpe_handler None e
      | RaisedOther x \<Rightarrow> Inr None
      | Returned out \<Rightarrow>
          (let git_root_path = Path (strip out);
               relative_path = (case relative_to model_path git_root_path of
                                  Inr r \<Rightarrow> r | Inl x \<Rightarrow> model_path)
           in case run_checked True (git [''git'', ''show'', ''main:'' @ path_str relative_path]) of
                RaisedCPE e \<Rightarrow> cpe_handler (Some relative_path) e
              | RaisedOther x \<Rightarrow> Inr None
              | Returned content \<Rightarrow> Inr (Some content)))"

text \<open>A repository at \<open>/repo\<close> whose main branch lacks the file: \<open>git show\<close> exits with 128.\<close>

fun git_missing_on_main :: "string list \<Rightarrow> run_result" where
  "git_missing_on_main args =
     (if args = [''git'', ''rev-parse'', ''--show-toplevel''] then Exited 0 ''/repo\<newline>'' ''''
      else Exited 128 '''' ''fatal: path does not exist in main'')"

section \<open>Model-diff tool: model locator\<close>

text \<open>
  \<open>find_model_path\<close> (compare_models.py).  The file system is an input: the working
  directory, which paths exist, and what \<open>models_dir.rglob(pattern)\<close> lists (or that it
  raises).  The result is what the call prints and what it returns.
\<close>

record fs_env =
  cwd :: path
  path_exists :: "path \<Rightarrow> bool"
  rglob :: "path \<Rightarrow> string \<Rightarrow> py_exc + path list"

text \<open>
  The upward search for the directory that holds \<open>dbt_project.yml\<close>: the loop ends
  without a find when \<open>current\<close> is its own parent, so the root itself is not looked at.
\<close>

function find_project_root :: "(path \<Rightarrow> bool) \<Rightarrow> path \<Rightarrow> path option" where
  "find_project_root ex current =
     (if current = parent current then None
      else if ex (current @ [''dbt_project.yml'']) then Some current
      else find_project_root ex (parent current))"
  by pat_completeness auto
termination
  by (relation "measure (\<lambda>(ex, current). length current)")
     (auto simp: parent_def split: if_splits)

declare find_project_root.simps [simp del]

text \<open>The name the search uses: the stem when the argument ends in \<open>.sql\<close>.\<close>

definition search_name :: "string \<Rightarrow> string" where
  "search_name model_name =
     (if endswith model_name ''.sql'' then path_stem (Path model_name) else model_name)"

definition search_pattern :: "string \<Rightarrow> string" where
  "search_pattern model_name = ''*'' @ search_name model_name @ ''.sql''"

definition not_found_report :: "string \<Rightarrow> string list" where
  "not_found_report model_name = [''Could not find model '' @ search_name model_name]"

definition ambiguous_report :: "string \<Rightarrow> path list \<Rightarrow> string list" where
  "ambiguous_report model_name matches =
     [''Found multiple matches for '' @ search_name model_name @ '':'']
     @ map (\<lambda>m. ''  '' @ path_str m) matches
     @ [''Please specify the model more precisely'']"

definition find_model_path :: "fs_env \<Rightarrow> string \<Rightarrow> string list \<times> path option" where
  "find_model_path env model_name =
     (case find_project_root (path_exists env) (cwd env) of
        None \<Rightarrow> ([''Could not find dbt_project.yml''], None)
      | Some project_root \<Rightarrow>
          if endswith model_name ''.sql'' \<and> path_exists env (Path model_name)
          then ([], Some (Path model_name))
          else
            (case rglob env (project_root @ [''models'']) (search_pattern model_name) of
               Inl x \<Rightarrow> ([''Error in find_model_path''], None)
             | Inr matches \<Rightarrow>
                 if matches = [] then (not_found_report model_name, None)
                 else if 1 < length matches then (ambiguous_report model_name matches, None)
                 else ([], Some (matches ! 0))))"


section \<open>Model-diff tool: comparison template\<close>

text \<open>
  \<open>create_comparison_macro\<close> (compare_models.py) writes a fixed template into which the
  two names are spliced as \<open>relation1 = ref(model1_name)\<close> and
  \<open>relation2 = ref(model2_name)\<close>; everything else the template does is a function of
  the columns of the two relations, which the build tool supplies when it runs the macro.
\<close>

record column =
  col_name :: string
  col_dtype :: string

record macro =
  relation1 :: string
  relation2 :: string

definition create_comparison_macro :: "string \<Rightarrow> string \<Rightarrow> macro" where
  "create_comparison_macro model1_name model2_name =
     \<lparr>relation1 = model1_name, relation2 = model2_name\<rparr>"

text \<open>The template's \<open>|lower\<close> filter, on ASCII text.\<close>

definition lower_char :: "char \<Rightarrow> char" where
  "lower_char c =
     (if 65 \<le> (of_char c :: nat) \<and> (of_char c :: nat) \<le> 90 then char_of (of_char c + 32 :: nat) else c)"

definition lower :: "string \<Rightarrow> string" where
  "lower s = map lower_char s"

record type_change =
  tc_column :: string
  main_type :: string
  current_type :: string

record comparison =
  common_cols :: "string list"
  version1_only_cols :: "string list"
  version2_only_cols :: "string list"
  type_changes :: "type_change list"

text \<open>
  The inner loop of the first pass, for one \<open>col1\<close>: \<open>do append\<close> mutates the two lists;
  \<open>set col_in_version2 = true\<close> assigns the flag.
\<close>

fun scan_version2 ::
  "column \<Rightarrow> column list \<Rightarrow> string list \<times> type_change list \<times> bool
     \<Rightarrow> string list \<times> type_change list \<times> bool" where
  "scan_version2 col1 [] st = st"
| "scan_version2 col1 (col2 # cols2) (common, changes, found) =
     (if lower (col_name col1) = lower (col_name col2)
      then scan_version2 col1 cols2
             (common @ [col_name col1],
              (if col_dtype col1 \<noteq> col_dtype col2
               then changes @ [\<lparr>tc_column = col_name col1, main_type = col_dtype col1,
                                 current_type = col_dtype col2\<rparr>]
               else changes),
              True)
      else scan_version2 col1 cols2 (common, changes, found))"

text \<open>
  In the template language an assignment made inside a \<open>for\<close> block is local to that
  block: after the inner loop the flag still has the value the enclosing block gave it.
  \<open>loop_scoped\<close> says whether that rule is in force; the functions below are written
  for both readings.
\<close>

definition after_loop :: "bool \<Rightarrow> bool \<Rightarrow> bool \<Rightarrow> bool" where
  "after_loop loop_scoped outer_value inner_value = (if loop_scoped then outer_value else inner_value)"

fun first_pass ::
  "bool \<Rightarrow> column list \<Rightarrow> column list \<Rightarrow> string list \<times> type_change list \<times> string list
     \<Rightarrow> string list \<times> type_change list \<times> string list" where
  "first_pass loop_scoped [] cols2 st = st"
| "first_pass loop_scoped (col1 # cols1) cols2 (common, changes, only1) =
     (case scan_version2 col1 cols2 (common, changes, False) of
        (common', changes', found) \<Rightarrow>
          first_pass loop_scoped cols1 cols2
            (common', changes',
             (if \<not> after_loop loop_scoped False found then only1 @ [col_name col1] else only1)))"

fun scan_version1 :: "column \<Rightarrow> column list \<Rightarrow> bool \<Rightarrow> bool" where
  "scan_version1 col2 [] found = found"
| "scan_version1 col2 (col1 # cols1) found =
     (if lower (col_name col2) = lower (col_name col1) then scan_version1 col2 cols1 True
      else scan_version1 col2 cols1 found)"

fun second_pass :: "bool \<Rightarrow> column list \<Rightarrow> column list \<Rightarrow> string list \<Rightarrow> string list" where
  "second_pass loop_scoped [] cols1 only2 = only2"
| "second_pass loop_scoped (col2 # cols2) cols1 only2 =
     second_pass loop_scoped cols2 cols1
       (if \<not> after_loop loop_scoped False (scan_version1 col2 cols1 False)
        then only2 @ [col_name col2] else only2)"

text \<open>
  The macro run against a database: \<open>adapter.get_columns_in_relation\<close> is the function
  \<open>db\<close> from a relation's name to its columns.
\<close>

definition compare_versions :: "bool \<Rightarrow> (string \<Rightarrow> column list) \<Rightarrow> macro \<Rightarrow> comparison" where
  "compare_versions loop_scoped db m =
     (let cols1 = db (relation1 m); cols2 = db (relation2 m)
      in case first_pass loop_scoped cols1 cols2 ([], [], []) of
           (common, changes, only1) \<Rightarrow>
             \<lparr>common_cols = common, version1_only_cols = only1,
              version2_only_cols = second_pass loop_scoped cols2 cols1 [],
              type_changes = changes\<rparr>)"

text \<open>
  Two columns are one column when their names agree up to letter case; \<open>unmatched\<close> is
  the names of the columns of one relation that the pass over the other relation leaves
  unflagged.
\<close>

definition same_name :: "column \<Rightarrow> column \<Rightarrow> bool" where
  "same_name a b \<longleftrightarrow> lower (col_name a) = lower (col_name b)"

definition unmatched :: "bool \<Rightarrow> column list \<Rightarrow> column list \<Rightarrow> string list" where
  "unmatched loop_scoped cols others =
     map col_name (filter (\<lambda>c. \<not> after_loop loop_scoped False (\<exists>d\<in>set others. same_name c d)) cols)"

text \<open>Sample data: two versions of a model whose key column differs in case and type.\<close>

definition sample_db :: "string \<Rightarrow> column list" where
  "sample_db n =
     (if n = ''temp_orders_main''
      then [\<lparr>col_name = ''ID'', col_dtype = ''int''\<rparr>, \<lparr>col_name = ''region'', col_dtype = ''text''\<rparr>]
      else [\<lparr>col_name = ''id'', col_dtype = ''text''\<rparr>, \<lparr>col_name = ''total'', col_dtype = ''int''\<rparr>])"

text \<open>The same two versions with the key column spelled alike.\<close>

definition sample_db_same :: "string \<Rightarrow> column list" where
  "sample_db_same n =
     (if n = ''temp_orders_main''
      then [\<lparr>col_name = ''id'', col_dtype = ''int''\<rparr>, \<lparr>col_name = ''region'', col_dtype = ''text''\<rparr>]
      else [\<lparr>col_name = ''id'', col_dtype = ''text''\<rparr>, \<lparr>col_name = ''total'', col_dtype = ''int''\<rparr>])"

section \<open>Model-diff tool: run orchestrator\<close>

text \<open>
  \<open>main\<close> (compare_models.py) with \<open>create_temp_model\<close>, the file effect of
  \<open>create_comparison_macro\<close>, \<open>get_immediate_downstream_models\<close> and \<open>save_results\<close>.
  The inputs are the command line, the file system the locator sees, the \<open>git\<close> and
  \<open>dbt\<close> executables (\<open>dbt\<close> may answer the same command differently at different
  times, so it also gets the number of the call), the content of the model files, and
  whether the operating system lets a given file be written or removed.  The state is
  the set of files the run has generated and not removed, a log of what was attempted,
  and the three path variables \<open>main\<close> initialises to None.
\<close>

datatype event = Attempt string | Saved string | Removed path | NotRemoved path

datatype outcome = Normal | SysExit nat | Raised py_exc

record run_env =
  args_model_name :: string
  args_include_downstream :: bool
  run_fs :: fs_env
  run_git :: "string list \<Rightarrow> run_result"
  run_dbt :: "nat \<Rightarrow> string list \<Rightarrow> run_result"
  read_file :: "path \<Rightarrow> string option"
  can_write :: "path \<Rightarrow> bool"
  can_remove :: "path \<Rightarrow> bool"
  copy_ok :: bool

record run_state =
  generated :: "path set"
  events :: "event list"
  tick :: nat
  main_path :: "path option"
  current_path :: "path option"
  macro_path :: "path option"

definition initial_state :: run_state where
  "initial_state = \<lparr>generated = {}, events = [], tick = 0,
     main_path = None, current_path = None, macro_path = None\<rparr>"

definition log_event :: "event \<Rightarrow> run_state \<Rightarrow> run_state" where
  "log_event e st = st\<lparr>events := events st @ [e]\<rparr>"

text \<open>
  \<open>create_temp_model\<close>: the name and the path of the copy; the write either happens or
  raises inside the function's own \<open>try\<close>, which then returns \<open>(None, None)\<close>.
\<close>

definition temp_name :: "string \<Rightarrow> string \<Rightarrow> string" where
  "temp_name original_name suffix_tag = ''temp_'' @ original_name @ ''_'' @ suffix_tag"

definition temp_path :: "path \<Rightarrow> string \<Rightarrow> path" where
  "temp_path model_dir name = model_dir @ [''analysis'', name @ ''.sql'']"

definition create_temp_model ::
  "run_env \<Rightarrow> string \<Rightarrow> string \<Rightarrow> path \<Rightarrow> run_state \<Rightarrow> run_state \<times> (path \<times> string) option" where
  "create_temp_model env suffix_tag original_name model_dir st =
     (let name = temp_name original_name suffix_tag; p = temp_path model_dir name
      in if can_write env p then (st\<lparr>generated := insert p (generated st)\<rparr>, Some (p, name))
         else (st, None))"

text \<open>
  The file \<open>create_comparison_macro\<close> writes, always at the same place; the function has
  no \<open>try\<close>, a refused write raises.
\<close>

definition macro_file :: path where
  "macro_file = [''macros'', ''compare_versions.sql'']"

definition write_macro :: "run_env \<Rightarrow> run_state \<Rightarrow> run_state \<times> (py_exc + path)" where
  "write_macro env st =
     (if can_write env macro_file then (st\<lparr>generated := insert macro_file (generated st)\<rparr>, Inr macro_file)
      else (st, Inl OSError))"

text \<open>
  The loop of both \<open>finally\<close> blocks: a path that is set and exists is removed; a refused
  removal is reported and the loop goes on.
\<close>

fun cleanup :: "run_env \<Rightarrow> path option list \<Rightarrow> run_state \<Rightarrow> run_state" where
  "cleanup env [] st = st"
| "cleanup env (None # ps) st = cleanup env ps st"
| "cleanup env (Some p # ps) st =
     cleanup env ps
       (if p \<in> generated st
        then (if can_remove env p
              then log_event (Removed p) (st\<lparr>generated := generated st - {p}\<rparr>)
              else log_event (NotRemoved p) st)
        else st)"

text \<open>One call of \<open>dbt\<close>, and one with \<open>check=True\<close>: the exception or the captured stdout.\<close>

definition dbt_call :: "run_env \<Rightarrow> string list \<Rightarrow> run_state \<Rightarrow> run_state \<times> run_result" where
  "dbt_call env cmd st = (st\<lparr>tick := Suc (tick st)\<rparr>, run_dbt env (tick st) cmd)"

definition dbt_checked :: "run_env \<Rightarrow> string list \<Rightarrow> run_state \<Rightarrow> run_state \<times> string checked" where
  "dbt_checked env cmd st = (case dbt_call env cmd st of (st', r) \<Rightarrow> (st', run_checked True r))"

definition cmd_run_main :: "string \<Rightarrow> string list" where
  "cmd_run_main name = [''dbt'', ''run'', ''--models'', ''+'' @ name, ''--target'', ''dev'',
     ''--full-refresh'', ''--debug'']"

definition cmd_run_current :: "string \<Rightarrow> string list" where
  "cmd_run_current name = [''dbt'', ''run'', ''--models'', ''+'' @ name, ''--target'', ''dev'',
     ''--full-refresh'']"

definition cmd_run_down :: "string \<Rightarrow> string list" where
  "cmd_run_down name = [''dbt'', ''run'', ''--models'', name, ''--target'', ''dev'', ''--full-refresh'']"

definition cmd_compare :: "string list" where
  "cmd_compare = [''dbt'', ''run-operation'', ''compare_versions'', ''--target'', ''dev'']"

text \<open>\<open>get_immediate_downstream_models\<close>: only \<open>CalledProcessError\<close> is caught.\<close>

definition parse_models :: "string \<Rightarrow> string \<Rightarrow> string list" where
  "parse_models model_name out =
     filter (\<lambda>m. m \<noteq> model_name)
       (map strip (filter (\<lambda>line. strip line \<noteq> []) (split_on CHR 0x0A out)))"

definition get_immediate_downstream_models ::
  "run_env \<Rightarrow> string \<Rightarrow> run_state \<Rightarrow> run_state \<times> (py_exc + string list)" where
  "get_immediate_downstream_models env model_name st =
     (case dbt_checked env [''dbt'', ''deps''] st of
        (st1, RaisedCPE e) \<Rightarrow> (st1, Inr [])
      | (st1, RaisedOther x) \<Rightarrow> (st1, Inl x)
      | (st1, Returned out1) \<Rightarrow>
          (case dbt_checked env [''dbt'', ''list'', ''--select'', model_name @ ''+1''] st1 of
             (st2, RaisedCPE e) \<Rightarrow> (st2, Inr [])
           | (st2, RaisedOther x) \<Rightarrow> (st2, Inl x)
           | (st2, Returned out) \<Rightarrow> (st2, Inr (parse_models model_name out))))"

text \<open>
  The \<open>try\<close> block of one downstream model: three checked calls and \<open>save_results\<close>.
  The block has a \<open>finally\<close> clause and no \<open>except\<close> clause.
\<close>

definition downstream_block ::
  "run_env \<Rightarrow> string \<Rightarrow> string \<Rightarrow> string \<Rightarrow> run_state \<Rightarrow> run_state \<times> outcome" where
  "downstream_block env model main_down_name current_down_name st =
     (case dbt_checked env (cmd_run_down main_down_name) st of
        (st1, RaisedCPE e) \<Rightarrow> (st1, Raised (CalledProcessError (returncode e)))
      | (st1, RaisedOther x) \<Rightarrow> (st1, Raised x)
      | (st1, Returned o1) \<Rightarrow>
     (case dbt_checked env (cmd_run_down current_down_name) st1 of
        (st2, RaisedCPE e) \<Rightarrow> (st2, Raised (CalledProcessError (returncode e)))
      | (st2, RaisedOther x) \<Rightarrow> (st2, Raised x)
      | (st2, Returned o2) \<Rightarrow>
     (case dbt_checked env cmd_compare st2 of
        (st3, RaisedCPE e) \<Rightarrow> (st3, Raised (CalledProcessError (returncode e)))
      | (st3, RaisedOther x) \<Rightarrow> (st3, Raised x)
      | (st3, Returned out) \<Rightarrow> (log_event (Saved (model @ ''_downstream'')) st3, Normal))))"

text \<open>The suffix tags of the two copies of a downstream model.\<close>

definition main_down_tag :: "string \<Rightarrow> string" where
  "main_down_tag model = ''main_down_'' @ model"

definition current_down_tag :: "string \<Rightarrow> string" where
  "current_down_tag model = ''current_down_'' @ model"

text \<open>
  The body of the loop over the downstream models.  \<open>Normal\<close> is the end of the body or
  a \<open>continue\<close>: the loop goes on to the next model.
\<close>

definition compare_downstream :: "run_env \<Rightarrow> path \<Rightarrow> string \<Rightarrow> run_state \<Rightarrow> run_state \<times> outcome" where
  "compare_downstream env model_dir model st0 =
     (let st = log_event (Attempt model) st0
      in case snd (find_model_path (run_fs env) model) of
           None \<Rightarrow> (st, Normal)
         | Some downstream_path \<Rightarrow>
        (case get_main_branch_content (run_git env) downstream_path of
           Inl x \<Rightarrow> (st, Raised x)
         | Inr main_downstream_content \<Rightarrow>
        if main_downstream_content = None \<or> main_downstream_content = Some [] then (st, Normal)
        else
        (case read_file env downstream_path of
           None \<Rightarrow> (st, Raised OSError)
         | Some current_downstream_content \<Rightarrow>
        (case create_temp_model env (main_down_tag model) model model_dir st of
           (st1, main_down) \<Rightarrow>
        (case create_temp_model env (current_down_tag model) model model_dir st1 of
           (st2, current_down) \<Rightarrow>
        (case (main_down, current_down) of
           (Some (main_down_path, main_down_name), Some (current_down_path, current_down_name)) \<Rightarrow>
             (case write_macro env st2 of
                (st3, Inl x) \<Rightarrow> (st3, Raised x)
              | (st3, Inr down_macro_path) \<Rightarrow>
                  (case downstream_block env model main_down_name current_down_name st3 of
                     (st4, out) \<Rightarrow>
                       (cleanup env [Some main_down_path, Some current_down_path,
                                     Some down_macro_path] st4, out)))
         | _ \<Rightarrow> (st2, Normal)))))))"

fun downstream_loop :: "run_env \<Rightarrow> path \<Rightarrow> string list \<Rightarrow> run_state \<Rightarrow> run_state \<times> outcome" where
  "downstream_loop env model_dir [] st = (st, Normal)"
| "downstream_loop env model_dir (model # models) st =
     (case compare_downstream env model_dir model st of
        (st', Normal) \<Rightarrow> downstream_loop env model_dir models st'
      | (st', out) \<Rightarrow> (st', out))"

text \<open>The part of \<open>main\<close> after the comparison of the model itself.\<close>

definition downstream_stage :: "run_env \<Rightarrow> path \<Rightarrow> string \<Rightarrow> run_state \<Rightarrow> run_state \<times> outcome" where
  "downstream_stage env model_dir original_name st =
     (if args_include_downstream env then
        (case get_immediate_downstream_models env original_name st of
           (st1, Inl x) \<Rightarrow> (st1, Raised x)
         | (st1, Inr downstream_models) \<Rightarrow> downstream_loop env model_dir downstream_models st1)
      else (st, Normal))"

text \<open>
  The \<open>with tempfile.TemporaryDirectory()\<close> block up to the comparison of the model
  itself: the copy of the project, the checkout of the models of main, the two builds
  and the comparison.  Each failed tool call ends in \<open>sys.exit(1)\<close>.
\<close>

definition build_and_compare ::
  "run_env \<Rightarrow> string \<Rightarrow> string \<Rightarrow> string \<Rightarrow> run_state \<Rightarrow> run_state \<times> outcome" where
  "build_and_compare env original_name main_name current_name st =
     (if \<not> copy_ok env then (st, Raised OSError)
      else
     (case run_checked False (run_git env [''git'', ''checkout'', ''main'', ''--'', ''models'']) of
        RaisedCPE e \<Rightarrow> (st, SysExit 1)
      | RaisedOther x \<Rightarrow> (st, Raised x)
      | Returned o0 \<Rightarrow>
     (case dbt_call env (cmd_run_main main_name) st of
        (st1, SpawnFailed) \<Rightarrow> (st1, Raised OSError)
      | (st1, Exited rc out err) \<Rightarrow>
     if rc \<noteq> 0 then (st1, SysExit 1)
     else
     (case dbt_checked env (cmd_run_current current_name) st1 of
        (st2, RaisedCPE e) \<Rightarrow> (st2, SysExit 1)
      | (st2, RaisedOther x) \<Rightarrow> (st2, Raised x)
      | (st2, Returned o2) \<Rightarrow>
     (case dbt_checked env cmd_compare st2 of
        (st3, RaisedCPE e) \<Rightarrow> (st3, SysExit 1)
      | (st3, RaisedOther x) \<Rightarrow> (st3, Raised x)
      | (st3, Returned out) \<Rightarrow> (log_event (Saved original_name) st3, Normal))))))"

text \<open>The \<open>try\<close> block of \<open>main\<close>.\<close>

definition main_body :: "run_env \<Rightarrow> run_state \<Rightarrow> run_state \<times> outcome" where
  "main_body env st =
     (case snd (find_model_path (run_fs env) (args_model_name env)) of
        None \<Rightarrow> (st, SysExit 1)
      | Some model_path \<Rightarrow>
     (case read_file env model_path of
        None \<Rightarrow> (st, Raised OSError)
      | Some current_content \<Rightarrow>
     (case get_main_branch_content (run_git env) model_path of
        Inl x \<Rightarrow> (st, Raised x)
      | Inr main_content \<Rightarrow>
     if main_content = None \<or> main_content = Some [] then (st, SysExit 1)
     else
     (let model_dir = parent model_path; original_name = path_stem model_path
      in case create_temp_model env ''main'' original_name model_dir st of
           (st1, main_made) \<Rightarrow>
        (let st1' = st1\<lparr>main_path := map_option fst main_made\<rparr>
         in case create_temp_model env ''current'' original_name model_dir st1' of
              (st2, current_made) \<Rightarrow>
        (let st2' = st2\<lparr>current_path := map_option fst current_made\<rparr>
         in case (main_made, current_made) of
              (Some (mp, main_name), Some (cp, current_name)) \<Rightarrow>
                (case write_macro env st2' of
                   (st3, Inl x) \<Rightarrow> (st3, Raised x)
                 | (st3, Inr p) \<Rightarrow>
                     (let st3' = st3\<lparr>macro_path := Some p\<rparr>
                      in case build_and_compare env original_name main_name current_name st3' of
                           (st4, Normal) \<Rightarrow> downstream_stage env model_dir original_name st4
                         | (st4, out) \<Rightarrow> (st4, out)))
            | _ \<Rightarrow> (st2', SysExit 1)))))))"

text \<open>\<open>main\<close>: the body, then the \<open>finally\<close> block over the three path variables.\<close>

definition main :: "run_env \<Rightarrow> run_state \<times> outcome" where
  "main env =
     (case main_body env initial_state of
        (st, out) \<Rightarrow> (cleanup env [main_path st, current_path st, macro_path st] st, out))"

text \<open>
  Sample data: the project \<open>/proj\<close> with the model \<open>orders\<close> and its two immediate
  downstream models \<open>report\<close> and \<open>summary\<close>, every file also on main.  \<open>sample_run\<close>
  takes what the operating system and \<open>dbt\<close> do.
\<close>

definition project_fs :: fs_env where
  "project_fs = \<lparr>cwd = [''/'', ''proj''],
     path_exists = (\<lambda>p. p = [''/'', ''proj'', ''dbt_project.yml'']),
     rglob = (\<lambda>d pat.
        if pat = ''*orders.sql'' then Inr [[''/'', ''proj'', ''models'', ''orders.sql'']]
        else if pat = ''*report.sql'' then Inr [[''/'', ''proj'', ''models'', ''report.sql'']]
        else if pat = ''*summary.sql'' then Inr [[''/'', ''proj'', ''models'', ''summary.sql'']]
        else Inr [])\<rparr>"

definition project_git :: "string list \<Rightarrow> run_result" where
  "project_git cmd =
     (if cmd = [''git'', ''rev-parse'', ''--show-toplevel''] then Exited 0 ''/proj\<newline>'' []
      else Exited 0 ''select 1'' [])"

definition sample_run :: "(path \<Rightarrow> bool) \<Rightarrow> (nat \<Rightarrow> string list \<Rightarrow> run_result) \<Rightarrow> run_env" where
  "sample_run writable_paths dbt_tool =
     \<lparr>args_model_name = ''orders'', args_include_downstream = True, run_fs = project_fs,
      run_git = project_git, run_dbt = dbt_tool, read_file = (\<lambda>p. Some ''select 2''),
      can_write = writable_paths, can_remove = (\<lambda>p. True), copy_ok = True\<rparr>"

text \<open>A \<open>dbt\<close> that lists the two downstream models and fails on the given commands.\<close>

definition dbt_failing_on :: "string list list \<Rightarrow> nat \<Rightarrow> string list \<Rightarrow> run_result" where
  "dbt_failing_on failing n cmd =
     (if cmd \<in> set failing then Exited 1 [] ''Compilation Error''
      else if cmd = [''dbt'', ''list'', ''--select'', ''orders+1'']
      then Exited 0 ''orders\<newline>report\<newline>summary\<newline>'' []
      else Exited 0 ''ok'' [])"




definition report_unwritable :: run_env where
  "report_unwritable = sample_run
     (\<lambda>p. p \<noteq> [''/'', ''proj'', ''models'', ''analysis'', ''temp_report_current_down_report.sql''])
     (dbt_failing_on [])"

section \<open>Mailbox-ingest pipeline: archiver\<close>

text \<open>
  \<open>WorkdayEmailProcessor.archive_file\<close> (email_processor.py).  The store is the local
  file system (regular files by path) and the list of objects uploaded to the cloud
  folder.  The clock, the permission to write a path and the cloud listing call are
  inputs.
\<close>

datatype content = Data string | Sidecar "(string \<times> string) list"

record drive_file =
  df_name :: string
  df_parents :: "string list"
  df_description :: "(string \<times> string) list"

record store =
  files :: "path \<rightharpoonup> content"
  uploads :: "drive_file list"

record archive_env =
  archive_method :: string
  archive_dir :: path
  now_iso :: string
  now_stamp :: string
  writable :: "path \<Rightarrow> bool"
  drive_folder_ids :: "string \<Rightarrow> string"
  drive_list :: "string \<Rightarrow> string \<Rightarrow> py_exc + string list"
  drive_link :: "drive_file \<Rightarrow> string"

text \<open>
  The names bound at module level of email_processor.py: its imports, \<open>logger\<close> and the
  class.  \<open>from googleapiclient.http import MediaFileUpload\<close> is a statement of the body
  of \<open>_init_archive\<close>, so it binds a local name of that call and nothing here.
\<close>

definition module_globals :: "string list" where
  "module_globals = [''os'', ''imaplib'', ''email'', ''decode_header'', ''tempfile'', ''pd'',
     ''np'', ''logging'', ''yaml'', ''time'', ''json'', ''re'', ''datetime'', ''Path'',
     ''shutil'', ''gspread'', ''ServiceAccountCredentials'', ''set_with_dataframe'',
     ''logger'', ''WorkdayEmailProcessor'']"

text \<open>A name that is no local of the running function is looked up in the module.\<close>

definition lookup_global :: "string \<Rightarrow> py_exc + string" where
  "lookup_global n = (if n \<in> set module_globals then Inr n else Inl (NameError n))"

text \<open>\<open>dir / name\<close> for a name without a slash.\<close>

definition pjoin :: "path \<Rightarrow> string \<Rightarrow> path" where
  "pjoin p s = (if s = [] \<or> s = ''.'' then p else p @ [s])"

text \<open>\<open>path.with_suffix('.json')\<close>: the last suffix replaced, or added where there is none.\<close>

definition with_suffix_json :: "path \<Rightarrow> path" where
  "with_suffix_json p = butlast p @ [path_stem p @ ''.json'']"

text \<open>\<open>shutil.copy2(src, dst)\<close> and \<open>open(p, 'w')\<close> followed by the write.\<close>

definition copy2 :: "archive_env \<Rightarrow> store \<Rightarrow> path \<Rightarrow> path \<Rightarrow> py_exc + store" where
  "copy2 env st src dst =
     (case files st src of
        None \<Rightarrow> Inl OSError
      | Some c \<Rightarrow> if writable env dst then Inr (st\<lparr>files := (files st)(dst \<mapsto> c)\<rparr>)
                  else Inl OSError)"

definition write_file :: "archive_env \<Rightarrow> store \<Rightarrow> path \<Rightarrow> content \<Rightarrow> py_exc + store" where
  "write_file env st p c =
     (if writable env p then Inr (st\<lparr>files := (files st)(p \<mapsto> c)\<rparr>) else Inl OSError)"

definition metadata :: "archive_env \<Rightarrow> string \<Rightarrow> string \<Rightarrow> string \<Rightarrow> (string \<times> string) list" where
  "metadata env filename archived_filename file_type =
     [(''original_filename'', filename), (''archived_filename'', archived_filename),
      (''file_type'', file_type), (''archived_timestamp'', now_iso env),
      (''archived_by'', ''workday_email_processor'')]"

text \<open>The \<open>local\<close> branch: the directory of the kind, then the path the copy is written to.\<close>

definition target_dir :: "archive_env \<Rightarrow> string \<Rightarrow> path" where
  "target_dir env file_type =
     (if file_type = ''loa'' then pjoin (archive_dir env) ''loa'' else pjoin (archive_dir env) ''to'')"

definition stamped :: "archive_env \<Rightarrow> string \<Rightarrow> string" where
  "stamped env filename = now_stamp env @ ''_'' @ filename"

definition archive_local :: "archive_env \<Rightarrow> store \<Rightarrow> path \<Rightarrow> string \<Rightarrow> store \<times> (py_exc + string)" where
  "archive_local env st file_path file_type =
     (let filename = path_name file_path;
          collision = (pjoin (target_dir env file_type) filename \<in> dom (files st));
          archived_filename = (if collision then stamped env filename else filename);
          target_path = pjoin (target_dir env file_type) archived_filename
      in case copy2 env st file_path target_path of
           Inl x \<Rightarrow> (st, Inl x)
         | Inr st1 \<Rightarrow>
             (case write_file env st1 (with_suffix_json target_path)
                     (Sidecar (metadata env filename archived_filename file_type)) of
                Inl x \<Rightarrow> (st1, Inl x)
              | Inr st2 \<Rightarrow> (st2, Inr (path_str target_path))))"

text \<open>
  The \<open>google_drive\<close> branch: the folder, the listing of same-named objects, the renaming
  on a collision, the request body, then \<open>MediaFileUpload(...)\<close> and the upload.
\<close>

definition archive_drive :: "archive_env \<Rightarrow> store \<Rightarrow> path \<Rightarrow> string \<Rightarrow> store \<times> (py_exc + string)" where
  "archive_drive env st file_path file_type =
     (let filename = path_name file_path;
          folder_id = (if file_type = ''loa'' then drive_folder_ids env ''loa''
                       else drive_folder_ids env ''to'')
      in case drive_list env filename folder_id of
           Inl x \<Rightarrow> (st, Inl x)
         | Inr found \<Rightarrow>
             (let archived_filename = (if found \<noteq> [] then stamped env filename else filename);
                  file_metadata = \<lparr>df_name = archived_filename, df_parents = [folder_id],
                     df_description = metadata env filename archived_filename file_type\<rparr>
              in case lookup_global ''MediaFileUpload'' of
                   Inl x \<Rightarrow> (st, Inl x)
                 | Inr media \<Rightarrow>
                     (st\<lparr>uploads := uploads st @ [file_metadata]\<rparr>,
                      Inr (drive_link env file_metadata))))"

text \<open>The whole method: every exception of the body becomes the return value \<open>None\<close>.\<close>

definition archive_body :: "archive_env \<Rightarrow> store \<Rightarrow> path \<Rightarrow> string \<Rightarrow> store \<times> (py_exc + string)" where
  "archive_body env st file_path file_type =
     (if archive_method env = ''local'' then archive_local env st file_path file_type
      else if archive_method env = ''google_drive'' then archive_drive env st file_path file_type
      else (st, Inl (ValueError (''Unsupported archive method: '' @ archive_method env))))"

definition archive_file :: "archive_env \<Rightarrow> store \<Rightarrow> path \<Rightarrow> string \<Rightarrow> store \<times> string option" where
  "archive_file env st file_path file_type =
     (case archive_body env st file_path file_type of
        (st', Inl x) \<Rightarrow> (st', None)
      | (st', Inr loc) \<Rightarrow> (st', Some loc))"

text \<open>
  Sample data: an attachment in the run's temporary directory, an archive that already
  holds a file of that name, a cloud folder that lists one object of that name.
\<close>

definition sample_tmp :: path where
  "sample_tmp = [''/'', ''tmp'', ''run'', ''report.xlsx'']"

definition sample_store :: store where
  "sample_store = \<lparr>files = [sample_tmp \<mapsto> Data ''new'',
       [''/'', ''archive'', ''to'', ''report.xlsx''] \<mapsto> Data ''old''], uploads = []\<rparr>"

definition sample_env :: "string \<Rightarrow> archive_env" where
  "sample_env m = \<lparr>archive_method = m, archive_dir = [''/'', ''archive''],
     now_iso = ''2025-03-12T07:02:00'', now_stamp = ''20250312_070200'',
     writable = (\<lambda>p. True), drive_folder_ids = (\<lambda>k. ''folder-'' @ k),
     drive_list = (\<lambda>n f. Inr [''id-1'']), drive_link = (\<lambda>f. ''https://drive/'' @ df_name f)\<rparr>"

section \<open>Mailbox-ingest pipeline: tabular normalizer\<close>

text \<open>
  A data frame is its column labels and its rows of cells; \<open>NaN\<close> is the null marker
  of an empty spreadsheet cell.
\<close>

datatype cell = NaN | Str string | Num int

record dataframe =
  columns :: "string list"
  rows :: "cell list list"

text \<open>\<open>df.rename(columns=mapping)\<close>: a label the mapping has no key for is kept.\<close>

definition rename :: "(string \<rightharpoonup> string) \<Rightarrow> dataframe \<Rightarrow> dataframe" where
  "rename mapping df =
     df\<lparr>columns := map (\<lambda>c. case mapping c of None \<Rightarrow> c | Some c' \<Rightarrow> c') (columns df)\<rparr>"

text \<open>\<open>df[col] = v\<close> for a scalar and a label the frame does not have yet.\<close>

definition add_column :: "string \<Rightarrow> cell \<Rightarrow> dataframe \<Rightarrow> dataframe" where
  "add_column col v df = \<lparr>columns = columns df @ [col], rows = map (\<lambda>r. r @ [v]) (rows df)\<rparr>"

text \<open>\<open>df[col] = df[col].fillna('')\<close> over the columns whose label holds \<open>Date\<close> or \<open>Day\<close>.\<close>

definition is_date_column :: "string \<Rightarrow> bool" where
  "is_date_column col \<longleftrightarrow> sublist ''Date'' col \<or> sublist ''Day'' col"

definition fill_dates :: "dataframe \<Rightarrow> dataframe" where
  "fill_dates df =
     df\<lparr>rows := map (\<lambda>r. map (\<lambda>(col, v). if is_date_column col \<and> v = NaN then Str [] else v)
                              (zip (columns df) r)) (rows df)\<rparr>"

definition loa_required :: "string list" where
  "loa_required = [''Employee ID'', ''Effective Date'', ''First Day of Leave'']"

definition to_required :: "string list" where
  "to_required = [''Employee ID'', ''Time Off Date'', ''Duration'']"

text \<open>\<open>[col for col in required_columns if col not in df.columns]\<close>.\<close>

definition missing_columns :: "string list \<Rightarrow> dataframe \<Rightarrow> string list" where
  "missing_columns required df = filter (\<lambda>col. col \<notin> set (columns df)) required"

definition missing_error :: "string list \<Rightarrow> py_exc" where
  "missing_error missing = ValueError (''Missing required columns: '' @ join '', '' missing)"

definition add_timestamp :: "int \<Rightarrow> dataframe \<Rightarrow> dataframe" where
  "add_timestamp now df =
     (if ''timestamp_unix'' \<notin> set (columns df) then add_column ''timestamp_unix'' (Num now) df else df)"

text \<open>
  \<open>process_loa_file\<close> and \<open>process_to_file\<close>.  \<open>read_excel\<close> (the parse of the file) and
  the clock are inputs; the \<open>except\<close> clause logs and re-raises, so an exception of the
  body is the exception of the call.
\<close>

definition process_loa_file ::
  "(path \<Rightarrow> py_exc + dataframe) \<Rightarrow> (string \<rightharpoonup> string) \<Rightarrow> int \<Rightarrow> path \<Rightarrow> py_exc + dataframe" where
  "process_loa_file read_excel column_mapping now file_path =
     (case read_excel file_path of
        Inl x \<Rightarrow> Inl x
      | Inr df0 \<Rightarrow>
          (let df = rename column_mapping df0;
               missing = missing_columns loa_required df
           in if missing \<noteq> [] then Inl (missing_error missing)
              else Inr (fill_dates (add_timestamp now df))))"

definition process_to_file ::
  "(path \<Rightarrow> py_exc + dataframe) \<Rightarrow> (string \<rightharpoonup> string) \<Rightarrow> int \<Rightarrow> path \<Rightarrow> py_exc + dataframe" where
  "process_to_file read_excel column_mapping now file_path =
     (case read_excel file_path of
        Inl x \<Rightarrow> Inl x
      | Inr df0 \<Rightarrow>
          (let df = rename column_mapping df0;
               missing = missing_columns to_required df
           in if missing \<noteq> [] then Inl (missing_error missing)
              else
                (let df1 = add_timestamp now df;
                     df2 = (if ''Status'' \<notin> set (columns df1)
                            then add_column ''Status'' (Str ''Approved'') df1 else df1);
                     df3 = (if ''Unit of Time'' \<notin> set (columns df2) \<and> ''Duration'' \<in> set (columns df2)
                            then add_column ''Unit of Time'' (Str ''Hours'') df2 else df2)
                 in Inr df3)))"

text \<open>Sample data: a time-off export that has lost its \<open>Duration\<close> column.\<close>

definition sample_frame :: dataframe where
  "sample_frame = \<lparr>columns = [''Employee ID'', ''Date''],
     rows = [[Str ''E1'', Str ''2025-03-12''], [Str ''E2'', NaN]]\<rparr>"

definition sample_mapping :: "string \<rightharpoonup> string" where
  "sample_mapping = [''Date'' \<mapsto> ''Time Off Date'']"

section \<open>Mailbox-ingest pipeline: spreadsheet appender\<close>




























section \<open>Theorems\<close>

lemma cpe_handler_text_mode:
  "cpe_handler rp \<lparr>returncode = rc, err_stdout = captured True out, err_stderr = captured True err\<rparr>
     = Inl (case rp of None \<Rightarrow> UnboundLocalError | Some r \<Rightarrow> AttributeError)"
  by (simp add: cpe_handler_def split: option.splits)

text \<open>Whenever \<open>git show\<close> exits non-zero, the call ends in the exception of the handler.\<close>

lemma get_main_branch_content_raises:
  assumes "git [''git'', ''rev-parse'', ''--show-toplevel''] = Exited 0 out err"
    and "\<forall>cmd. cmd \<noteq> [''git'', ''rev-parse'', ''--show-toplevel''] \<longrightarrow> git cmd = Exited rc out' err'"
    and "rc \<noteq> 0"
  shows "get_main_branch_content git model_path = Inl AttributeError"
  using assms
  by (simp add: get_main_branch_content_def Let_def cpe_handler_def)

text \<open>
  C9 (the code departs from the claim).  The claim: the baseline fetcher returns the
  content or None and never lets an exception reach its caller.  At a file that is in the
  work tree and not on main, \<open>git show\<close> exits non-zero, the dedicated clause calls
  \<open>decode\<close> on a \<open>str\<close>, and the \<open>AttributeError\<close> escapes the function.
\<close>

theorem get_main_branch_content_propagates:
  "get_main_branch_content git_missing_on_main [''/'', ''repo'', ''models'', ''orders.sql'']
     = Inl AttributeError"
  by (simp add: get_main_branch_content_def cpe_handler_def strip_def is_space_def Path_def
      relative_to_def path_str_def)

subsection \<open>Archiver\<close>











text \<open>
  C8.  With the archive method \<open>google_drive\<close>, \<open>archive_file\<close> returns None and leaves
  the store (local files and uploaded objects) as it was, whatever the file and whatever
  the cloud listing answers; whenever the listing answers at all, the exception the
  handler swallows is the \<open>NameError\<close> for \<open>MediaFileUpload\<close>.
\<close>

theorem archive_drive_never_uploads:
  assumes "archive_method env = ''google_drive''"
  shows "archive_file env st file_path file_type = (st, None)
       \<and> (\<forall>found. drive_list env (path_name file_path)
              (if file_type = ''loa'' then drive_folder_ids env ''loa'' else drive_folder_ids env ''to'')
              = Inr found \<longrightarrow>
            archive_body env st file_path file_type = (st, Inl (NameError ''MediaFileUpload'')))"
  using assms
  by (auto simp: archive_file_def archive_body_def archive_drive_def Let_def lookup_global_def
      module_globals_def split: sum.splits)

theorem archive_drive_never_uploads_witness:
  "archive_file (sample_env ''google_drive'') sample_store [''/'', ''tmp'', ''run'', ''other.xlsx''] ''loa''
     = (sample_store, None)
   \<and> archive_body (sample_env ''google_drive'') sample_store [''/'', ''tmp'', ''run'', ''other.xlsx''] ''loa''
     = (sample_store, Inl (NameError ''MediaFileUpload''))"
proof -
  have h: "archive_method (sample_env ''google_drive'') = ''google_drive''"
    by (simp add: sample_env_def)
  have l: "drive_list (sample_env ''google_drive'') (path_name [''/'', ''tmp'', ''run'', ''other.xlsx''])
      (if ''loa'' = ''loa'' then drive_folder_ids (sample_env ''google_drive'') ''loa''
       else drive_folder_ids (sample_env ''google_drive'') ''to'') = Inr [''id-1'']"
    by (simp add: sample_env_def)
  show ?thesis
    using archive_drive_never_uploads [OF h, of sample_store "[''/'', ''tmp'', ''run'', ''other.xlsx'']" "''loa''"] l
    by blast
qed

subsection \<open>Tabular normalizer\<close>

lemma missing_columns_empty_iff:
  "missing_columns required df = [] \<longleftrightarrow> set required \<subseteq> set (columns df)"
  by (auto simp: missing_columns_def filter_empty_conv)

lemma set_missing_columns:
  "set (missing_columns required df) = set required - set (columns df)"
  by (auto simp: missing_columns_def)

text \<open>
  C2.  For a file that parses, whose columns after the configured renaming lack a
  required column of its kind, the normalizer raises the error whose message lists the
  missing required columns, exactly those and in the order of the requirement, and
  returns no frame.
\<close>

theorem normalizer_missing_columns:
  assumes "read_excel file_path = Inr df0"
  shows "(\<not> set loa_required \<subseteq> set (columns (rename m df0)) \<longrightarrow>
            process_loa_file read_excel m now file_path
              = Inl (missing_error (missing_columns loa_required (rename m df0)))
          \<and> set (missing_columns loa_required (rename m df0))
              = set loa_required - set (columns (rename m df0)))
       \<and> (\<not> set to_required \<subseteq> set (columns (rename m df0)) \<longrightarrow>
            process_to_file read_excel m now file_path
              = Inl (missing_error (missing_columns to_required (rename m df0)))
          \<and> set (missing_columns to_required (rename m df0))
              = set to_required - set (columns (rename m df0)))"
  using assms
  by (simp add: process_loa_file_def process_to_file_def Let_def missing_columns_empty_iff
      set_missing_columns)

theorem normalizer_missing_columns_witness:
  "process_loa_file (\<lambda>p. Inr sample_frame) sample_mapping 1741788120 [''/'', ''tmp'', ''run'', ''loa.xlsx'']
     = Inl (ValueError ''Missing required columns: Effective Date, First Day of Leave'')
   \<and> process_to_file (\<lambda>p. Inr sample_frame) sample_mapping 1741788120 [''/'', ''tmp'', ''run'', ''to.xlsx'']
     = Inl (ValueError ''Missing required columns: Duration'')"
proof -
  have c: "columns (rename sample_mapping sample_frame) = [''Employee ID'', ''Time Off Date'']"
    by (simp add: rename_def sample_mapping_def sample_frame_def)
  have l: "\<not> set loa_required \<subseteq> set (columns (rename sample_mapping sample_frame))"
    unfolding c by (simp add: loa_required_def)
  have t: "\<not> set to_required \<subseteq> set (columns (rename sample_mapping sample_frame))"
    unfolding c by (simp add: to_required_def)
  have ml: "missing_error (missing_columns loa_required (rename sample_mapping sample_frame))
      = ValueError ''Missing required columns: Effective Date, First Day of Leave''"
    unfolding missing_columns_def c by (simp add: loa_required_def missing_error_def)
  have mt: "missing_error (missing_columns to_required (rename sample_mapping sample_frame))
      = ValueError ''Missing required columns: Duration''"
    unfolding missing_columns_def c by (simp add: to_required_def missing_error_def)
  have r: "(\<lambda>p. Inr sample_frame) [''/'', ''tmp'', ''run'', ''loa.xlsx''] = (Inr sample_frame :: py_exc + dataframe)"
    by simp
  have r2: "(\<lambda>p. Inr sample_frame) [''/'', ''tmp'', ''run'', ''to.xlsx''] = (Inr sample_frame :: py_exc + dataframe)"
    by simp
  from normalizer_missing_columns [OF r, of sample_mapping 1741788120] l ml
  have a: "process_loa_file (\<lambda>p. Inr sample_frame) sample_mapping 1741788120 [''/'', ''tmp'', ''run'', ''loa.xlsx'']
     = Inl (ValueError ''Missing required columns: Effective Date, First Day of Leave'')"
    by simp
  from normalizer_missing_columns [OF r2, of sample_mapping 1741788120] t mt
  have b: "process_to_file (\<lambda>p. Inr sample_frame) sample_mapping 1741788120 [''/'', ''tmp'', ''run'', ''to.xlsx'']
     = Inl (ValueError ''Missing required columns: Duration'')"
    by simp
  from a b show ?thesis by simp
qed

subsection \<open>Spreadsheet appender\<close>


















subsection \<open>The end column of the write range\<close>














subsection \<open>Model locator\<close>





subsection \<open>Comparison template\<close>

lemma scan_version2_common:
  "fst (scan_version2 col1 cols2 (common, changes, found))
     = common @ replicate (length (filter (same_name col1) cols2)) (col_name col1)"
  by (induction cols2 arbitrary: common changes found)
     (simp_all add: same_name_def replicate_app_Cons_same)

lemma scan_version2_found:
  "snd (snd (scan_version2 col1 cols2 (common, changes, found)))
     \<longleftrightarrow> found \<or> (\<exists>col2\<in>set cols2. same_name col1 col2)"
  by (induction cols2 arbitrary: common changes found) (auto simp: same_name_def)

lemma scan_version1_found:
  "scan_version1 col2 cols1 found \<longleftrightarrow> found \<or> (\<exists>col1\<in>set cols1. same_name col2 col1)"
  by (induction cols1 arbitrary: found) (auto simp: same_name_def)

lemma first_pass_common:
  "fst (first_pass loop_scoped cols1 cols2 (common, changes, only1))
     = common @ concat (map (\<lambda>c. replicate (length (filter (same_name c) cols2)) (col_name c)) cols1)"
proof (induction cols1 arbitrary: common changes only1)
  case Nil
  then show ?case by simp
next
  case (Cons col1 cols1)
  obtain common' changes' found where s: "scan_version2 col1 cols2 (common, changes, False) = (common', changes', found)"
    by (cases "scan_version2 col1 cols2 (common, changes, False)") auto
  from scan_version2_common [of col1 cols2 common changes False] s
  have "common' = common @ replicate (length (filter (same_name col1) cols2)) (col_name col1)"
    by simp
  with s Cons.IH show ?case by simp
qed

lemma first_pass_only:
  "snd (snd (first_pass loop_scoped cols1 cols2 (common, changes, only1)))
     = only1 @ unmatched loop_scoped cols1 cols2"
proof (induction cols1 arbitrary: common changes only1)
  case Nil
  then show ?case by (simp add: unmatched_def)
next
  case (Cons col1 cols1)
  obtain common' changes' found where s: "scan_version2 col1 cols2 (common, changes, False) = (common', changes', found)"
    by (cases "scan_version2 col1 cols2 (common, changes, False)") auto
  from scan_version2_found [of col1 cols2 common changes False] s
  have "found \<longleftrightarrow> (\<exists>col2\<in>set cols2. same_name col1 col2)"
    by simp
  with s Cons.IH show ?case by (simp add: unmatched_def)
qed

lemma second_pass_only:
  "second_pass loop_scoped cols2 cols1 only2 = only2 @ unmatched loop_scoped cols2 cols1"
  by (induction cols2 arbitrary: only2) (simp_all add: unmatched_def scan_version1_found)

lemma compare_versions_fields:
  "version1_only_cols (compare_versions s db m) = unmatched s (db (relation1 m)) (db (relation2 m))"
  "version2_only_cols (compare_versions s db m) = unmatched s (db (relation2 m)) (db (relation1 m))"
  "common_cols (compare_versions s db m)
     = concat (map (\<lambda>c. replicate (length (filter (same_name c) (db (relation2 m)))) (col_name c))
         (db (relation1 m)))"
proof -
  obtain common changes only1 where f:
    "first_pass s (db (relation1 m)) (db (relation2 m)) ([], [], []) = (common, changes, only1)"
    by (cases "first_pass s (db (relation1 m)) (db (relation2 m)) ([], [], [])") auto
  from first_pass_only [of s "db (relation1 m)" "db (relation2 m)" "[]" "[]" "[]"] f
  have o: "only1 = unmatched s (db (relation1 m)) (db (relation2 m))" by simp
  from first_pass_common [of s "db (relation1 m)" "db (relation2 m)" "[]" "[]" "[]"] f
  have c: "common = concat (map (\<lambda>c. replicate (length (filter (same_name c) (db (relation2 m)))) (col_name c))
         (db (relation1 m)))" by simp
  show "version1_only_cols (compare_versions s db m) = unmatched s (db (relation1 m)) (db (relation2 m))"
    using f o by (simp add: compare_versions_def Let_def)
  show "version2_only_cols (compare_versions s db m) = unmatched s (db (relation2 m)) (db (relation1 m))"
    using f by (simp add: compare_versions_def Let_def second_pass_only)
  show "common_cols (compare_versions s db m)
     = concat (map (\<lambda>c. replicate (length (filter (same_name c) (db (relation2 m)))) (col_name c))
         (db (relation1 m)))"
    using f c by (simp add: compare_versions_def Let_def)
qed

lemma common_lower_set:
  "set (map lower (concat (map (\<lambda>c. replicate (length (filter (same_name c) ys)) (col_name c)) xs)))
     = {lower (col_name c) |c. c \<in> set xs \<and> (\<exists>d\<in>set ys. same_name c d)}"
  by (auto simp: set_replicate_conv_if filter_empty_conv)

lemma common_lower_sym:
  "{lower (col_name c) |c. c \<in> set xs \<and> (\<exists>d\<in>set ys. same_name c d)}
     = {lower (col_name c) |c. c \<in> set ys \<and> (\<exists>d\<in>set xs. same_name c d)}"
  by (auto simp: same_name_def) metis+

lemma common_set:
  "set (concat (map (\<lambda>c. replicate (length (filter (same_name c) ys)) (col_name c)) xs))
     = {col_name c |c. c \<in> set xs \<and> (\<exists>d\<in>set ys. same_name c d)}"
  by (auto simp: set_replicate_conv_if filter_empty_conv)

lemma common_spelled_alike:
  assumes "\<forall>c\<in>set xs. \<forall>d\<in>set ys. same_name c d \<longrightarrow> col_name c = col_name d"
  shows "{col_name c |c. c \<in> set ys \<and> (\<exists>d\<in>set xs. same_name c d)}
       = {col_name c |c. c \<in> set xs \<and> (\<exists>d\<in>set ys. same_name c d)}"
proof -
  have sym: "same_name c d \<longleftrightarrow> same_name d c" for c d
    by (auto simp: same_name_def)
  show ?thesis
    using assms by (auto simp: sym) (metis sym)+
qed

text \<open>
  C7.  Swapping the two model names swaps the list reported as main-branch-only with the
  list reported as current-branch-only, and the set of common columns, names compared
  without regard to letter case as the template matches them, is the same; where the two
  relations spell their common columns alike, it is the same set of names.  This holds
  under either reading of the scope of the flag.
\<close>

theorem swap_models:
  "version1_only_cols (compare_versions s db (create_comparison_macro b a))
     = version2_only_cols (compare_versions s db (create_comparison_macro a b))
   \<and> version2_only_cols (compare_versions s db (create_comparison_macro b a))
     = version1_only_cols (compare_versions s db (create_comparison_macro a b))
   \<and> set (map lower (common_cols (compare_versions s db (create_comparison_macro b a))))
     = set (map lower (common_cols (compare_versions s db (create_comparison_macro a b))))
   \<and> ((\<forall>c\<in>set (db a). \<forall>d\<in>set (db b). same_name c d \<longrightarrow> col_name c = col_name d) \<longrightarrow>
        set (common_cols (compare_versions s db (create_comparison_macro b a)))
          = set (common_cols (compare_versions s db (create_comparison_macro a b))))"
proof -
  have 1: "version1_only_cols (compare_versions s db (create_comparison_macro b a))
     = version2_only_cols (compare_versions s db (create_comparison_macro a b))"
    and 2: "version2_only_cols (compare_versions s db (create_comparison_macro b a))
     = version1_only_cols (compare_versions s db (create_comparison_macro a b))"
    unfolding compare_versions_fields by (simp_all add: create_comparison_macro_def)
  have 3: "set (map lower (common_cols (compare_versions s db (create_comparison_macro b a))))
     = set (map lower (common_cols (compare_versions s db (create_comparison_macro a b))))"
    unfolding compare_versions_fields common_lower_set
    using common_lower_sym [of "db b" "db a"] by (simp add: create_comparison_macro_def)
  have 4: "set (common_cols (compare_versions s db (create_comparison_macro b a)))
          = set (common_cols (compare_versions s db (create_comparison_macro a b)))"
    if "\<forall>c\<in>set (db a). \<forall>d\<in>set (db b). same_name c d \<longrightarrow> col_name c = col_name d"
    unfolding compare_versions_fields common_set
    using common_spelled_alike [OF that] by (simp add: create_comparison_macro_def)
  from 1 2 3 4 show ?thesis by blast
qed

theorem swap_models_witness:
  "version1_only_cols (compare_versions True sample_db
       (create_comparison_macro ''temp_orders_current'' ''temp_orders_main'')) = [''id'', ''total'']
   \<and> version2_only_cols (compare_versions True sample_db
       (create_comparison_macro ''temp_orders_main'' ''temp_orders_current'')) = [''id'', ''total'']
   \<and> set (common_cols (compare_versions True sample_db_same
       (create_comparison_macro ''temp_orders_current'' ''temp_orders_main''))) = {''id''}
   \<and> set (common_cols (compare_versions True sample_db_same
       (create_comparison_macro ''temp_orders_main'' ''temp_orders_current''))) = {''id''}"
proof -
  have v: "version2_only_cols (compare_versions True sample_db
       (create_comparison_macro ''temp_orders_main'' ''temp_orders_current'')) = [''id'', ''total'']"
    by code_simp
  from swap_models [of True sample_db "''temp_orders_current''" "''temp_orders_main''"] v
  have 1: "version1_only_cols (compare_versions True sample_db
       (create_comparison_macro ''temp_orders_current'' ''temp_orders_main'')) = [''id'', ''total'']"
    by simp
  have h: "\<forall>c\<in>set (sample_db_same ''temp_orders_main'').
      \<forall>d\<in>set (sample_db_same ''temp_orders_current''). same_name c d \<longrightarrow> col_name c = col_name d"
    by code_simp
  have c: "common_cols (compare_versions True sample_db_same
       (create_comparison_macro ''temp_orders_main'' ''temp_orders_current'')) = [''id'']"
    by code_simp
  from swap_models [of True sample_db_same "''temp_orders_current''" "''temp_orders_main''"] h c
  have 2: "set (common_cols (compare_versions True sample_db_same
       (create_comparison_macro ''temp_orders_current'' ''temp_orders_main''))) = {''id''}"
    by simp
  from 1 v 2 c show ?thesis by simp
qed

subsection \<open>Run orchestrator\<close>


lemma create_temp_model_events: "events (fst (create_temp_model env tag name dir st)) = events st"
  by (simp add: create_temp_model_def Let_def)

lemma write_macro_events: "events (fst (write_macro env st)) = events st"
  by (simp add: write_macro_def)

lemma dbt_checked_events: "events (fst (dbt_checked env cmd st)) = events st"
  by (simp add: dbt_checked_def dbt_call_def)









lemma block_first_failure:
  assumes "run_dbt env (tick st) (cmd_run_down n1) = Exited rc out err" "rc \<noteq> 0"
  shows "downstream_block env model n1 n2 st = (st\<lparr>tick := Suc (tick st)\<rparr>, Raised (CalledProcessError rc))"
  using assms by (simp add: downstream_block_def dbt_checked_def dbt_call_def)











text \<open>
  C4 (the code departs from the claim).  The claim: every temporary file the run
  generates is removed before exit, on every path.  When the first copy of a downstream
  model is created and the creation of the second is refused, the loop body leaves by
  \<open>continue\<close> ahead of the \<open>try\<close> whose \<open>finally\<close> clause would remove the first copy;
  the final cleanup looks at the three files of the model itself only.  The run ends
  normally, no removal was refused, and the first copy is still there.
\<close>

theorem downstream_temp_model_left_behind:
  "snd (main report_unwritable) = Normal
   \<and> NotRemoved [''/'', ''proj'', ''models'', ''analysis'', ''temp_report_main_down_report.sql'']
       \<notin> set (events (fst (main report_unwritable)))
   \<and> [''/'', ''proj'', ''models'', ''analysis'', ''temp_report_main_down_report.sql'']
       \<in> generated (fst (main report_unwritable))"
  by code_simp

end
